theory Spec2Isabelle
  imports Complex_Main
begin

section \<open>The Stage B training driver (train\_b.py)\<close>

text \<open>
  The driver orchestrates collaborators (torch, the gdf package, the model classes) whose
  bodies are not part of train\_b.py. A call into a collaborator is recorded as an event
  of a trace, in the order the driver makes it, together with the context the driver has
  set up around it (gradient mode, gradient synchronisation). Tensors are symbolic terms
  that keep the operations the driver applies and the sizes it computes. Python floats
  are read as real numbers.
\<close>

subsection \<open>Errors and events\<close>

datatype error =
    ValueError string
  | UnboundLocalError string
  | KeyError string
  | StopIteration
  | FrozenInstanceError string
  | MissingFields "string list"
  | UnknownFields "string list"

type_synonym shape = "int \<times> int \<times> int \<times> int"

text \<open>Four-dimensional tensors (batch, channels, height, width) as the driver builds them.\<close>

datatype tensor =
    Latents nat shape
  | Randn shape
  | Interpolate tensor "int \<times> int" string
  | Add tensor tensor
  | MulS tensor real
  | DivS tensor real

datatype diffuse_out = Noised | Noise | Target | LogSNR | NoiseCond | LossWeightOut

text \<open>Everything else the forward pass computes: conditions, the six results of
  \<open>gdf.diffuse\<close>, the generator's prediction, losses.\<close>

datatype quantity =
    GetConditions nat
  | Diffuse diffuse_out tensor tensor
  | Generator quantity quantity quantity
  | MseLoss quantity quantity
  | Mul quantity quantity
  | Mean quantity
  | DivI quantity int

text \<open>The collaborator calls of the forward pass.\<close>

datatype call =
    GetConditionsCall | EncodeLatents | RandnLike | PyramidNoise | GdfDiffuse
  | GeneratorCall | MseLossCall

text \<open>
  \<open>Backward l sync\<close>: \<open>l.backward()\<close> with gradient synchronisation on or off;
  \<open>ZeroGrad k b\<close>: \<open>zero_grad(set_to_none=b)\<close>; \<open>Op c grad amp\<close>: the call
  \<open>c\<close> made with gradient mode \<open>grad\<close> and bfloat16 autocast \<open>amp\<close>.
\<close>

datatype event =
    Backward quantity bool
  | ClipGradNorm real
  | OptimizerStep string
  | SchedulerStep string
  | ZeroGrad string bool
  | Op call bool bool
  | UpdateBuckets quantity quantity

text \<open>
  The mutable run state: \<open>info\<close>, torch's gradient mode, whether the
  generator synchronises gradients across devices on backward, the data iterator, and the
  trace of collaborator calls.
\<close>

record batch =
  images :: nat
  encoded_size :: shape

text \<open>\<open>info\<close>: the step counter and the optional adaptive-loss snapshot, a dict of two
  lists when present.\<close>

record InfoDTO =
  total_steps :: int
  adaptive_loss :: "(string \<times> real list) list option"

record run_state =
  info :: InfoDTO
  grad_enabled :: bool
  grad_sync :: bool
  autocast :: bool
  iterator :: "batch list"
  trace :: "event list"

definition emit :: "event \<Rightarrow> run_state \<Rightarrow> run_state" where
  "emit e s = s\<lparr>trace := trace s @ [e]\<rparr>"

text \<open>\<open>for k in d: f(k)\<close> over the keys of a dict, in insertion order.\<close>

fun for_keys :: "(string \<Rightarrow> event) \<Rightarrow> string list \<Rightarrow> run_state \<Rightarrow> run_state" where
  "for_keys f [] s = s"
| "for_keys f (k # ks) s = for_keys f ks (emit (f k) s)"

text \<open>\<open>with models.generator.no\_sync():\<close> switches gradient synchronisation off for
  the body and restores the previous setting on exit.\<close>

definition no_sync :: "(run_state \<Rightarrow> run_state) \<Rightarrow> run_state \<Rightarrow> run_state" where
  "no_sync body s = (let old = grad_sync s; s' = body (s\<lparr>grad_sync := False\<rparr>)
                     in s'\<lparr>grad_sync := old\<rparr>)"

text \<open>\<open>loss_adjusted.backward()\<close>, recorded with the synchronisation setting in force.\<close>

definition backward :: "quantity \<Rightarrow> run_state \<Rightarrow> run_state" where
  "backward l s = emit (Backward l (grad_sync s)) s"

subsection \<open>backward\_pass\<close>

datatype grad_norm = GradNorm

text \<open>
  \<open>optimizers\<close> and \<open>schedulers\<close> are the keys of \<open>optimizers.to_dict()\<close> and
  \<open>schedulers.to_dict()\<close>. The local \<open>grad_norm\<close> is bound in the update branch only,
  so the \<open>return grad_norm\<close> after the other branch raises.
\<close>

definition backward_pass ::
  "bool \<Rightarrow> quantity \<Rightarrow> string list \<Rightarrow> string list \<Rightarrow> run_state \<Rightarrow> (error + grad_norm) \<times> run_state"
where
  "backward_pass update loss_adjusted optimizers schedulers s =
     (if update then
        let s1 = backward loss_adjusted s;
            s2 = emit (ClipGradNorm 1.0) s1;
            s3 = for_keys OptimizerStep optimizers s2;
            s4 = for_keys SchedulerStep schedulers s3;
            s5 = for_keys (\<lambda>k. ZeroGrad k True) optimizers s4;
            s6 = s5\<lparr>info := (info s5)\<lparr>total_steps := total_steps (info s5) + 1\<rparr>\<rparr>
        in (Inr GradNorm, s6)
      else
        let s1 = no_sync (backward loss_adjusted) s
        in (Inl (UnboundLocalError ''grad_norm''), s1))"

subsection \<open>\_pyramid\_noise\<close>

fun size_of :: "tensor \<Rightarrow> shape" where
  "size_of (Latents n sh) = sh"
| "size_of (Randn sh) = sh"
| "size_of (Interpolate t (h, w) mode) = (case size_of t of (b, c, _, _) \<Rightarrow> (b, c, h, w))"
| "size_of (Add x y) = size_of x"
| "size_of (MulS t m) = size_of t"
| "size_of (DivS t d) = size_of t"

text \<open>\<open>t.size(0)\<close>, \<open>t.size(1)\<close>, \<open>t.size(-2)\<close> and \<open>t.shape[-2:]\<close>.\<close>

definition size0 :: "tensor \<Rightarrow> int" where
  "size0 t = (case size_of t of (b, c, h, w) \<Rightarrow> b)"

definition size1 :: "tensor \<Rightarrow> int" where
  "size1 t = (case size_of t of (b, c, h, w) \<Rightarrow> c)"

definition size_m2 :: "tensor \<Rightarrow> int" where
  "size_m2 t = (case size_of t of (b, c, h, w) \<Rightarrow> h)"

definition shape_m2 :: "tensor \<Rightarrow> int \<times> int" where
  "shape_m2 t = (case size_of t of (b, c, h, w) \<Rightarrow> (h, w))"

text \<open>
  The body of \<open>for i in range(1, levels)\<close>, run over the remaining values of \<open>i\<close>; the
  state of the loop is \<open>epsilon\<close> and \<open>multipliers\<close>. Both \<open>h\<close> and \<open>w\<close> are computed
  from \<open>epsilon.size(-2)\<close>, as in the source. Each \<open>Randn\<close> is a fresh draw.
\<close>

fun pyramid_loop ::
  "(int \<times> int) option \<Rightarrow> string \<Rightarrow> nat list \<Rightarrow> tensor \<times> real list \<Rightarrow> tensor \<times> real list"
where
  "pyramid_loop size_range scale_mode [] (epsilon, multipliers) = (epsilon, multipliers)"
| "pyramid_loop size_range scale_mode (i # rest) (epsilon, multipliers) =
     (let m = (0.75::real) ^ i;
          h = size_m2 epsilon div 2 ^ i;
          w = size_m2 epsilon div 2 ^ i;
          (epsilon', multipliers') =
            (if (case size_range of
                   None \<Rightarrow> True
                 | Some (lo, hi) \<Rightarrow> (lo \<le> h \<and> h \<le> hi) \<or> (lo \<le> w \<and> w \<le> hi))
             then
               let offset = Randn (size0 epsilon, size1 epsilon, h, w)
               in (Add epsilon (MulS (Interpolate offset (shape_m2 epsilon) scale_mode) m),
                   multipliers @ [m])
             else (epsilon, multipliers))
      in if h \<le> 1 \<or> w \<le> 1 then (epsilon', multipliers')
         else pyramid_loop size_range scale_mode rest (epsilon', multipliers'))"

definition pyramid_noise :: "tensor \<Rightarrow> (int \<times> int) option \<Rightarrow> nat \<Rightarrow> string \<Rightarrow> tensor" where
  "pyramid_noise epsilon size_range levels scale_mode =
     (let (epsilon', multipliers) =
            pyramid_loop size_range scale_mode [1..<levels] (epsilon, [1])
      in DivS epsilon' (sqrt (sum_list (map (\<lambda>m. m ^ 2) multipliers))))"

subsection \<open>Configuration, loss weight and extras\<close>

text \<open>Values a configuration field can hold: Python does not enforce the annotations.\<close>

datatype pyval = PyNone | PyBool bool | PyInt int | PyFloat real | PyStr string

text \<open>
  The fields of ConfigDTO the driver reads. \<open>ema_start_iters\<close>, \<open>use_fsdp\<close> and
  \<open>grad_accum_steps\<close> are inherited from the base DTOs.
\<close>

record config =
  model_version :: string
  clip_text_model_name :: string
  stage_a_checkpoint_path :: string
  effnet_checkpoint_path :: string
  generator_checkpoint_path :: "string option"
  adaptive_loss_weight :: pyval
  ema_start_iters :: "int option"
  use_fsdp :: bool
  grad_accum_steps :: int

datatype lw_class = AdaptiveLossWeight | P2LossWeight

text \<open>A loss-weight object: its class and the two attributes the driver writes.\<close>

record loss_weight_obj =
  lw_class :: lw_class
  bucket_ranges :: "real list option"
  bucket_losses :: "real list option"

record GDF =
  clamp_range :: "real \<times> real"
  loss_weight :: loss_weight_obj

text \<open>The entries \<open>cfg\<close>, \<open>shift\<close> and \<open>timesteps\<close> of the sampling configuration.\<close>

record sampling =
  sampling_cfg :: real
  sampling_shift :: int
  sampling_timesteps :: int

record ExtrasDTO =
  gdf :: GDF
  sampling_configs :: sampling

subsection \<open>forward\_pass\<close>

text \<open>\<open>with torch.no\_grad():\<close> and \<open>with torch.cuda.amp.autocast(dtype=torch.bfloat16):\<close>
  set a mode for the body and restore the previous one on exit.\<close>

definition no_grad :: "(run_state \<Rightarrow> 'a \<times> run_state) \<Rightarrow> run_state \<Rightarrow> 'a \<times> run_state" where
  "no_grad body s = (let old = grad_enabled s; (r, s') = body (s\<lparr>grad_enabled := False\<rparr>)
                     in (r, s'\<lparr>grad_enabled := old\<rparr>))"

definition with_autocast :: "(run_state \<Rightarrow> 'a \<times> run_state) \<Rightarrow> run_state \<Rightarrow> 'a \<times> run_state" where
  "with_autocast body s = (let old = autocast s; (r, s') = body (s\<lparr>autocast := True\<rparr>)
                           in (r, s'\<lparr>autocast := old\<rparr>))"

definition op :: "call \<Rightarrow> run_state \<Rightarrow> run_state" where
  "op c s = emit (Op c (grad_enabled s) (autocast s)) s"

text \<open>
  \<open>next(data.iterator)\<close> raises StopIteration on an exhausted iterator. get\_conditions,
  encode\_latents, \<open>gdf.diffuse\<close>, the generator and \<open>mse_loss\<close> are recorded as calls and
  their results kept symbolic; \<open>gdf.diffuse\<close> is called with \<open>shift=1, loss_shift=1\<close>.
\<close>

definition forward_pass ::
  "config \<Rightarrow> ExtrasDTO \<Rightarrow> run_state \<Rightarrow> (error + quantity \<times> quantity) \<times> run_state"
where
  "forward_pass config extras s =
     (case iterator s of
        [] \<Rightarrow> (Inl StopIteration, s)
      | batch # rest \<Rightarrow>
          let s0 = s\<lparr>iterator := rest\<rparr>;
              ((conditions, latents, epsilon), s1) =
                no_grad (\<lambda>t0.
                  let t1 = op GetConditionsCall t0;
                      conditions = GetConditions (images batch);
                      t2 = op EncodeLatents t1;
                      latents = Latents (images batch) (encoded_size batch);
                      t3 = op RandnLike t2;
                      epsilon = Randn (size_of latents);
                      t4 = op PyramidNoise t3;
                      epsilon = pyramid_noise epsilon (Some (1, 16)) 10 ''nearest'';
                      t5 = op GdfDiffuse t4
                  in ((conditions, latents, epsilon), t5)) s0;
              noised = Diffuse Noised latents epsilon;
              target = Diffuse Target latents epsilon;
              logSNR = Diffuse LogSNR latents epsilon;
              noise_cond = Diffuse NoiseCond latents epsilon;
              loss_weight = Diffuse LossWeightOut latents epsilon;
              ((loss, loss_adjusted), s2) =
                with_autocast (\<lambda>t0.
                  let t1 = op GeneratorCall t0;
                      pred = Generator noised noise_cond conditions;
                      t2 = op MseLossCall t1;
                      loss = MseLoss pred target;
                      loss_adjusted = DivI (Mean (Mul loss loss_weight)) (grad_accum_steps config)
                  in ((loss, loss_adjusted), t2)) s1;
              s3 = (if lw_class (GDF.loss_weight (gdf extras)) = AdaptiveLossWeight
                    then emit (UpdateBuckets logSNR loss) s2 else s2)
          in (Inr (loss, loss_adjusted), s3))"

subsection \<open>setup\_extras\_pre\<close>

text \<open>\<open>x is True\<close>: identity with the boolean \<open>True\<close>, which no other value has.\<close>

definition is_True :: "pyval \<Rightarrow> bool" where
  "is_True v = (v = PyBool True)"

text \<open>\<open>d[k]\<close> on a dict.\<close>

definition getitem :: "(string \<times> 'a) list \<Rightarrow> string \<Rightarrow> error + 'a" where
  "getitem d k = (case map_of d k of None \<Rightarrow> Inl (KeyError k) | Some v \<Rightarrow> Inr v)"

text \<open>
  The two constructors of the gdf package. The bucket boundaries and accumulators a new
  AdaptiveLossWeight starts with are set inside gdf, so they are parameters here; a
  P2LossWeight has neither attribute.
\<close>

definition new_AdaptiveLossWeight :: "real list \<Rightarrow> real list \<Rightarrow> loss_weight_obj" where
  "new_AdaptiveLossWeight ranges0 losses0 =
     \<lparr>lw_class = AdaptiveLossWeight, bucket_ranges = Some ranges0, bucket_losses = Some losses0\<rparr>"

definition new_P2LossWeight :: loss_weight_obj where
  "new_P2LossWeight = \<lparr>lw_class = P2LossWeight, bucket_ranges = None, bucket_losses = None\<rparr>"

text \<open>
  \<open>torch.tensor(xs)\<close> keeps the list it is given. The transform objects of the result
  carry no state of the run and are left out.
\<close>

definition setup_extras_pre ::
  "config \<Rightarrow> InfoDTO \<Rightarrow> real list \<Rightarrow> real list \<Rightarrow> error + ExtrasDTO"
where
  "setup_extras_pre config run_info ranges0 losses0 =
     (let gdf0 = \<lparr>clamp_range = (0.0001, 0.9999),
                  loss_weight = (if is_True (adaptive_loss_weight config)
                                 then new_AdaptiveLossWeight ranges0 losses0
                                 else new_P2LossWeight)\<rparr>;
          sampling_configs = \<lparr>sampling_cfg = 1.5, sampling_shift = 1, sampling_timesteps = 10\<rparr>
      in case adaptive_loss run_info of
           None \<Rightarrow> Inr \<lparr>gdf = gdf0, sampling_configs = sampling_configs\<rparr>
         | Some d \<Rightarrow>
             (case getitem d ''bucket_ranges'' of
                Inl e \<Rightarrow> Inl e
              | Inr r \<Rightarrow>
                  let gdf1 = gdf0\<lparr>loss_weight := (loss_weight gdf0)\<lparr>bucket_ranges := Some r\<rparr>\<rparr>
                  in (case getitem d ''bucket_losses'' of
                        Inl e \<Rightarrow> Inl e
                      | Inr l \<Rightarrow>
                          let gdf2 = gdf1\<lparr>loss_weight := (loss_weight gdf1)\<lparr>bucket_losses := Some l\<rparr>\<rparr>
                          in Inr \<lparr>gdf = gdf2, sampling_configs = sampling_configs\<rparr>)))"

subsection \<open>setup\_models\<close>

datatype arch = EfficientNetEncoder | StageA | StageB_3B | StageB_700M | CLIPText | CLIPTextProj

text \<open>
  Where a module's parameters come from: its constructor, a file read by \<open>torch.load\<close>
  (whole, or its \<open>state_dict\<close> entry), a pretrained model by name, or the run's
  checkpoint store by key.
\<close>

datatype weights =
    Fresh
  | FromFile string bool
  | Pretrained string
  | FromCheckpoint string

datatype wrap_policy = Blocks_3B | Blocks_700M

record module =
  arch :: arch
  weights :: weights
  training :: bool
  requires_grad :: bool
  fsdp :: "wrap_policy option"

text \<open>The outside world of setup\_models: which files hold a \<open>state_dict\<close> entry, and
  which keys the checkpoint store has.\<close>

record env =
  has_state_dict :: "string \<Rightarrow> bool"
  saved :: "string \<Rightarrow> bool"

definition new_module :: "arch \<Rightarrow> module" where
  "new_module a = \<lparr>arch = a, weights = Fresh, training = True, requires_grad = True, fsdp = None\<rparr>"

definition load_state_dict :: "module \<Rightarrow> weights \<Rightarrow> module" where
  "load_state_dict m w = m\<lparr>weights := w\<rparr>"

text \<open>\<open>m.eval().requires_grad_(False)\<close>\<close>

definition eval_no_grad :: "module \<Rightarrow> module" where
  "eval_no_grad m = m\<lparr>training := False, requires_grad := False\<rparr>"

text \<open>\<open>torch.load(path)\<close>, then the file itself or its \<open>state_dict\<close> entry.\<close>

definition load_file :: "env \<Rightarrow> module \<Rightarrow> string \<Rightarrow> module" where
  "load_file e m path = load_state_dict m (FromFile path (has_state_dict e path))"

text \<open>
  Modelled from the spec: \<open>load_model\<close> is a method of WarpCore, which is not in
  train\_b.py. The checkpoint store is keyed by logical name; loading a key it has
  restores the saved state into the module, and loading an absent key is no failure and
  leaves the module as it was given.
\<close>

definition load_model :: "env \<Rightarrow> module \<Rightarrow> string \<Rightarrow> module" where
  "load_model e m key = (if saved e key then load_state_dict m (FromCheckpoint key) else m)"

definition FSDP :: "module \<Rightarrow> wrap_policy \<Rightarrow> module" where
  "FSDP m policy = m\<lparr>fsdp := Some policy\<rparr>"

record ModelsDTO =
  effnet :: module
  stage_a :: module
  generator :: module
  generator_ema :: "module option"
  clip_tokenizer :: string
  clip_text_model :: module
  clip_text_model_proj :: module
  clip_image_model :: "module option"

definition setup_models :: "env \<Rightarrow> config \<Rightarrow> error + ModelsDTO" where
  "setup_models e config =
     (let effnet = eval_no_grad (load_file e (new_module EfficientNetEncoder)
                                   (effnet_checkpoint_path config));
          stage_a = eval_no_grad (load_file e (new_module StageA)
                                    (stage_a_checkpoint_path config))
      in case (if model_version config = ''3B'' then
                 Inr (new_module StageB_3B,
                      if ema_start_iters config \<noteq> None then Some (new_module StageB_3B) else None)
               else if model_version config = ''700M'' then
                 Inr (new_module StageB_700M,
                      if ema_start_iters config \<noteq> None then Some (new_module StageB_700M) else None)
               else Inl (ValueError (''Unknown model version '' @ model_version config))) of
           Inl err \<Rightarrow> Inl err
         | Inr (generator0, generator_ema0) \<Rightarrow>
             let generator1 = (case generator_checkpoint_path config of
                                 None \<Rightarrow> generator0
                               | Some path \<Rightarrow> load_state_dict generator0 (FromFile path False));
                 generator2 = load_model e generator1 ''generator'';
                 generator_ema1 =
                   (case generator_ema0 of
                      None \<Rightarrow> None
                    | Some m \<Rightarrow>
                        Some (eval_no_grad
                                (load_model e (load_state_dict m (weights generator2))
                                   ''generator_ema'')));
                 (generator3, generator_ema2) =
                   (if use_fsdp config then
                      let policy = (if model_version config = ''3B'' then Blocks_3B
                                    else Blocks_700M)
                      in (FSDP generator2 policy,
                          (case generator_ema1 of
                             None \<Rightarrow> None
                           | Some m \<Rightarrow> Some (FSDP m policy)))
                    else (generator2, generator_ema1));
                 clip_text = eval_no_grad
                   ((new_module CLIPText)\<lparr>weights := Pretrained (clip_text_model_name config)\<rparr>);
                 clip_proj = eval_no_grad
                   ((new_module CLIPTextProj)\<lparr>weights := Pretrained (clip_text_model_name config)\<rparr>)
             in Inr \<lparr>effnet = effnet, stage_a = stage_a,
                     generator = generator3, generator_ema = generator_ema2,
                     clip_tokenizer = clip_text_model_name config,
                     clip_text_model = clip_text, clip_text_model_proj = clip_proj,
                     clip_image_model = None\<rparr>)"

subsection \<open>ConfigDTO\<close>

text \<open>A field of a DTO is declared with the sentinel \<open>DTO_REQUIRED\<close> or with a default.\<close>

datatype field_default = DTO_REQUIRED | Default pyval

text \<open>The fields ConfigDTO declares itself, in the order of the class body.\<close>

definition ConfigDTO_fields :: "(string \<times> field_default) list" where
  "ConfigDTO_fields =
     [(''lr'', DTO_REQUIRED),
      (''warmup_updates'', DTO_REQUIRED),
      (''shift'', DTO_REQUIRED),
      (''model_version'', DTO_REQUIRED),
      (''clip_text_model_name'', Default (PyStr ''laion/CLIP-ViT-bigG-14-laion2B-39B-b160k'')),
      (''stage_a_checkpoint_path'', DTO_REQUIRED),
      (''effnet_checkpoint_path'', DTO_REQUIRED),
      (''generator_checkpoint_path'', Default PyNone),
      (''adaptive_loss_weight'', Default PyNone)]"

text \<open>A dataclass that redeclares an inherited field replaces its default.\<close>

definition all_fields :: "(string \<times> field_default) list \<Rightarrow> (string \<times> field_default) list" where
  "all_fields inherited =
     filter (\<lambda>(f, d). f \<notin> set (map fst ConfigDTO_fields)) inherited @ ConfigDTO_fields"

text \<open>Each field takes the given value, or else its default; a required field that is
  not given is reported.\<close>

fun fill_fields ::
  "(string \<times> field_default) list \<Rightarrow> (string \<times> pyval) list \<Rightarrow> string list \<times> (string \<times> pyval) list"
where
  "fill_fields [] kwargs = ([], [])"
| "fill_fields ((f, d) # fs) kwargs =
     (let (missing, vals) = fill_fields fs kwargs
      in case map_of kwargs f of
           Some v \<Rightarrow> (missing, (f, v) # vals)
         | None \<Rightarrow> (case d of
                      DTO_REQUIRED \<Rightarrow> (f # missing, vals)
                    | Default v \<Rightarrow> (missing, (f, v) # vals)))"

text \<open>
  Modelled from the spec: the construction of a DTO is done by \<open>warp_core\<close>, which is not
  in train\_b.py. Required fields must be present or construction fails, no default
  stands in for a required field, and an unknown field is a fatal construction error too.
\<close>

definition dto_new ::
  "(string \<times> field_default) list \<Rightarrow> (string \<times> pyval) list \<Rightarrow> error + (string \<times> pyval) list"
where
  "dto_new fs kwargs =
     (let (missing, vals) = fill_fields fs kwargs;
          unknown = filter (\<lambda>k. k \<notin> set (map fst fs)) (map fst kwargs)
      in if missing \<noteq> [] then Inl (MissingFields missing)
         else if unknown \<noteq> [] then Inl (UnknownFields unknown)
         else Inr vals)"

definition ConfigDTO_new ::
  "(string \<times> field_default) list \<Rightarrow> (string \<times> pyval) list \<Rightarrow> error + (string \<times> pyval) list"
where
  "ConfigDTO_new inherited kwargs = dto_new (all_fields inherited) kwargs"

text \<open>\<open>@dataclass(frozen=True)\<close>: assigning to a field of an instance raises and leaves the
  instance as it is.\<close>

definition dto_setattr ::
  "(string \<times> pyval) list \<Rightarrow> string \<Rightarrow> pyval \<Rightarrow> (error + unit) \<times> (string \<times> pyval) list"
where
  "dto_setattr obj name v = (Inl (FrozenInstanceError name), obj)"

subsection \<open>Names for the values of a forward pass\<close>

text \<open>The latents, the noise and the per-sample loss that forward\_pass computes from a
  batch.\<close>

abbreviation latents_of :: "batch \<Rightarrow> tensor" where
  "latents_of b \<equiv> Latents (images b) (encoded_size b)"

abbreviation epsilon_of :: "batch \<Rightarrow> tensor" where
  "epsilon_of b \<equiv> pyramid_noise (Randn (encoded_size b)) (Some (1, 16)) 10 ''nearest''"

abbreviation loss_of :: "batch \<Rightarrow> quantity" where
  "loss_of b \<equiv>
     MseLoss (Generator (Diffuse Noised (latents_of b) (epsilon_of b))
                        (Diffuse NoiseCond (latents_of b) (epsilon_of b))
                        (GetConditions (images b)))
             (Diffuse Target (latents_of b) (epsilon_of b))"

fun is_update_buckets :: "event \<Rightarrow> bool" where
  "is_update_buckets (UpdateBuckets x y) = True"
| "is_update_buckets _ = False"

text \<open>The events a call has added to the trace of the state it started from.\<close>

definition added :: "run_state \<Rightarrow> run_state \<Rightarrow> event list" where
  "added s s' = drop (length (trace s)) (trace s')"

text \<open>The FSDP wrapping that setup\_models applies to the generator and to its shadow.\<close>

definition wrapped :: "config \<Rightarrow> module \<Rightarrow> module" where
  "wrapped config m =
     (if use_fsdp config
      then FSDP m (if model_version config = ''3B'' then Blocks_3B else Blocks_700M)
      else m)"

subsection \<open>Example inputs\<close>

definition example_batch :: batch where
  "example_batch = \<lparr>images = 0, encoded_size = (2, 4, 8, 8)\<rparr>"

definition example_state :: run_state where
  "example_state =
     \<lparr>info = \<lparr>total_steps = 0, adaptive_loss = None\<rparr>,
      grad_enabled = True, grad_sync = True, autocast = False,
      iterator = [example_batch], trace = []\<rparr>"

definition example_config :: config where
  "example_config =
     \<lparr>model_version = ''3B'',
      clip_text_model_name = ''laion/CLIP-ViT-bigG-14-laion2B-39B-b160k'',
      stage_a_checkpoint_path = ''stage_a.pt'',
      effnet_checkpoint_path = ''effnet.pt'',
      generator_checkpoint_path = None,
      adaptive_loss_weight = PyBool True,
      ema_start_iters = Some 5000,
      use_fsdp = True,
      grad_accum_steps = 4\<rparr>"

definition example_snapshot :: "(string \<times> real list) list" where
  "example_snapshot = [(''bucket_ranges'', [-5, 0, 5]), (''bucket_losses'', [1, 0.5, 0.25, 1])]"

definition example_adaptive :: ExtrasDTO where
  "example_adaptive =
     \<lparr>gdf = \<lparr>clamp_range = (0.0001, 0.9999),
             loss_weight = new_AdaptiveLossWeight [-5, 0, 5] [1, 1, 1, 1]\<rparr>,
      sampling_configs = \<lparr>sampling_cfg = 1.5, sampling_shift = 1, sampling_timesteps = 10\<rparr>\<rparr>"

definition example_fixed :: ExtrasDTO where
  "example_fixed =
     \<lparr>gdf = \<lparr>clamp_range = (0.0001, 0.9999), loss_weight = new_P2LossWeight\<rparr>,
      sampling_configs = \<lparr>sampling_cfg = 1.5, sampling_shift = 1, sampling_timesteps = 10\<rparr>\<rparr>"

definition example_env :: env where
  "example_env = \<lparr>has_state_dict = (\<lambda>path. path = ''effnet.pt''), saved = (\<lambda>key. False)\<rparr>"

definition example_kwargs :: "(string \<times> pyval) list" where
  "example_kwargs =
     [(''lr'', PyFloat 0.0001), (''warmup_updates'', PyInt 1), (''shift'', PyInt 4),
      (''model_version'', PyStr ''3B''),
      (''stage_a_checkpoint_path'', PyStr ''stage_a.pt''),
      (''effnet_checkpoint_path'', PyStr ''effnet.pt''),
      (''adaptive_loss_weight'', PyBool True)]"

section \<open>Properties\<close>

subsection \<open>Helper facts\<close>

lemma for_keys_trace: "for_keys f ks s = s\<lparr>trace := trace s @ map f ks\<rparr>"
  by (induction ks arbitrary: s) (simp_all add: emit_def)

text \<open>
  C1. With \<open>update = True\<close>, backward\_pass appends to the trace, in this order: the
  backward propagation of the adjusted loss, the clipping of the gradient norm to 1.0, one
  step per optimizer, one step per scheduler, one zero\_grad per optimizer; it adds
  exactly 1 to \<open>info.total_steps\<close>, changes nothing else and returns the gradient norm.
\<close>

theorem backward_pass_update:
  "backward_pass True la opts scheds s =
     (Inr GradNorm,
      s\<lparr>info := (info s)\<lparr>total_steps := total_steps (info s) + 1\<rparr>,
        trace := trace s @ [Backward la (grad_sync s), ClipGradNorm 1]
                   @ map OptimizerStep opts @ map SchedulerStep scheds
                   @ map (\<lambda>k. ZeroGrad k True) opts\<rparr>)"
  by (simp add: backward_pass_def backward_def emit_def for_keys_trace Let_def)

text \<open>
  C2. With \<open>update = False\<close>, backward\_pass propagates gradients once with
  synchronisation suppressed and leaves optimizers, schedulers and the step counter alone,
  but it does not return: reading the unbound local \<open>grad_norm\<close> raises.
\<close>

theorem backward_pass_no_update_raises:
  "backward_pass False la opts scheds s =
     (Inl (UnboundLocalError ''grad_norm''), s\<lparr>trace := trace s @ [Backward la False]\<rparr>)"
  by (simp add: backward_pass_def backward_def emit_def no_sync_def Let_def)


subsection \<open>\_pyramid\_noise\<close>

text \<open>
  C3. On a base tensor of height 8 and width 4, with the range [1, 16] and 10 levels, the
  level-1 noise is drawn at 4 by 4 and not at 4 by 2: the code shrinks the height for both
  dimensions. The loop therefore runs through level 3, where the shrunk height reaches 1,
  although the shrunk width reaches 1 at level 2. Level \<open>i\<close> is scaled by
  \<open>0.75 ^ i\<close>, and the sum is divided by the square root of the sum of the squared
  factors used, the base tensor's 1 included.
\<close>

theorem pyramid_noise_width_from_height:
  "pyramid_noise (Randn (1, 1, 8, 4)) (Some (1, 16)) 10 ''nearest'' =
     DivS (Add (Add (Add (Randn (1, 1, 8, 4))
                  (MulS (Interpolate (Randn (1, 1, 4, 4)) (8, 4) ''nearest'') (3 / 4)))
             (MulS (Interpolate (Randn (1, 1, 2, 2)) (8, 4) ''nearest'') (9 / 16)))
        (MulS (Interpolate (Randn (1, 1, 1, 1)) (8, 4) ''nearest'') (27 / 64)))
       (sqrt (1 + (3 / 4)\<^sup>2 + (9 / 16)\<^sup>2 + (27 / 64)\<^sup>2))"
  by (simp add: pyramid_noise_def upt_rec size_m2_def size0_def size1_def shape_m2_def Let_def)

subsection \<open>forward\_pass\<close>

lemma forward_pass_run:
  "iterator s = b # rest \<Longrightarrow>
   forward_pass cf ex s =
     (Inr (loss_of b,
           DivI (Mean (Mul (loss_of b) (Diffuse LossWeightOut (latents_of b) (epsilon_of b))))
                (grad_accum_steps cf)),
      s\<lparr>iterator := rest,
        trace := trace s @
          [Op GetConditionsCall False (autocast s), Op EncodeLatents False (autocast s),
           Op RandnLike False (autocast s), Op PyramidNoise False (autocast s),
           Op GdfDiffuse False (autocast s),
           Op GeneratorCall (grad_enabled s) True, Op MseLossCall (grad_enabled s) True]
          @ (if lw_class (GDF.loss_weight (gdf ex)) = AdaptiveLossWeight
             then [UpdateBuckets (Diffuse LogSNR (latents_of b) (epsilon_of b)) (loss_of b)]
             else [])\<rparr>)"
  by (simp add: forward_pass_def no_grad_def with_autocast_def op_def emit_def Let_def)

text \<open>
  C4. On a batch \<open>b\<close>, with gradients enabled on entry, forward\_pass makes the calls for
  the conditions, the latents, the base noise, the pyramid noise and \<open>gdf.diffuse\<close> with
  gradients off, then the generator call and the per-sample MSE loss with gradients on and
  under autocast. Its second result is the mean of the per-sample loss times the loss
  weight, divided by \<open>config.grad_accum_steps\<close>.
\<close>

theorem forward_pass_loss_adjusted:
  assumes "iterator s = b # rest" and "grad_enabled s"
  shows "fst (forward_pass cf ex s) =
           Inr (loss_of b,
                DivI (Mean (Mul (loss_of b)
                                (Diffuse LossWeightOut (latents_of b) (epsilon_of b))))
                     (grad_accum_steps cf)) \<and>
         take 7 (added s (snd (forward_pass cf ex s))) =
           [Op GetConditionsCall False (autocast s), Op EncodeLatents False (autocast s),
            Op RandnLike False (autocast s), Op PyramidNoise False (autocast s),
            Op GdfDiffuse False (autocast s),
            Op GeneratorCall True True, Op MseLossCall True True]"
  using assms by (simp add: forward_pass_run added_def)

theorem forward_pass_loss_adjusted_witness:
  "iterator example_state = example_batch # [] \<and> grad_enabled example_state \<and>
   fst (forward_pass example_config example_adaptive example_state) =
     Inr (loss_of example_batch,
          DivI (Mean (Mul (loss_of example_batch)
                          (Diffuse LossWeightOut (latents_of example_batch)
                             (epsilon_of example_batch))))
               4) \<and>
   take 7 (added example_state (snd (forward_pass example_config example_adaptive example_state))) =
     [Op GetConditionsCall False False, Op EncodeLatents False False,
      Op RandnLike False False, Op PyramidNoise False False, Op GdfDiffuse False False,
      Op GeneratorCall True True, Op MseLossCall True True]"
proof -
  have it: "iterator example_state = example_batch # []"
    by (simp add: example_state_def)
  have g: "grad_enabled example_state"
    by (simp add: example_state_def)
  have a: "autocast example_state = False"
    by (simp add: example_state_def)
  have c: "grad_accum_steps example_config = 4"
    by (simp add: example_config_def)
  show ?thesis
    using forward_pass_loss_adjusted [OF it g, of example_config example_adaptive] it g
    by (simp only: a c simp_thms)
qed

text \<open>
  C5. On a batch \<open>b\<close>, forward\_pass calls \<open>update_buckets\<close> exactly once when the loss
  weight is an AdaptiveLossWeight, with the logSNR of the batch and the per-sample loss
  before it is weighted and divided, and never when it is a P2LossWeight.
\<close>

theorem forward_pass_update_buckets:
  assumes "iterator s = b # rest"
  shows "filter is_update_buckets (added s (snd (forward_pass cf ex s))) =
           (if lw_class (GDF.loss_weight (gdf ex)) = AdaptiveLossWeight
            then [UpdateBuckets (Diffuse LogSNR (latents_of b) (epsilon_of b)) (loss_of b)]
            else [])"
  using assms by (simp add: forward_pass_run added_def)

theorem forward_pass_update_buckets_witness:
  "iterator example_state = example_batch # [] \<and>
   filter is_update_buckets
     (added example_state (snd (forward_pass example_config example_adaptive example_state))) =
     [UpdateBuckets (Diffuse LogSNR (latents_of example_batch) (epsilon_of example_batch))
        (loss_of example_batch)] \<and>
   filter is_update_buckets
     (added example_state (snd (forward_pass example_config example_fixed example_state))) = []"
proof -
  have it: "iterator example_state = example_batch # []"
    by (simp add: example_state_def)
  have a: "lw_class (GDF.loss_weight (gdf example_adaptive)) = AdaptiveLossWeight"
    by (simp add: example_adaptive_def new_AdaptiveLossWeight_def)
  have f: "lw_class (GDF.loss_weight (gdf example_fixed)) \<noteq> AdaptiveLossWeight"
    by (simp add: example_fixed_def new_P2LossWeight_def)
  show ?thesis
    using forward_pass_update_buckets [OF it, of example_config example_adaptive]
      forward_pass_update_buckets [OF it, of example_config example_fixed] it
    by (simp only: a f if_True if_False simp_thms)
qed

subsection \<open>setup\_extras\_pre\<close>

lemma setup_extras_pre_restored:
  "adaptive_loss ri = Some d \<Longrightarrow> map_of d ''bucket_ranges'' = Some r \<Longrightarrow>
   map_of d ''bucket_losses'' = Some l \<Longrightarrow>
   setup_extras_pre cf ri r0 l0 =
     Inr \<lparr>gdf = \<lparr>clamp_range = (0.0001, 0.9999),
                 loss_weight = \<lparr>lw_class = (if adaptive_loss_weight cf = PyBool True
                                             then AdaptiveLossWeight else P2LossWeight),
                                 bucket_ranges = Some r, bucket_losses = Some l\<rparr>\<rparr>,
          sampling_configs = \<lparr>sampling_cfg = 1.5, sampling_shift = 1, sampling_timesteps = 10\<rparr>\<rparr>"
  by (simp add: setup_extras_pre_def getitem_def is_True_def new_AdaptiveLossWeight_def
      new_P2LossWeight_def Let_def)

lemma setup_extras_pre_fresh:
  "adaptive_loss ri = None \<Longrightarrow>
   setup_extras_pre cf ri r0 l0 =
     Inr \<lparr>gdf = \<lparr>clamp_range = (0.0001, 0.9999),
                 loss_weight = (if adaptive_loss_weight cf = PyBool True
                                then new_AdaptiveLossWeight r0 l0 else new_P2LossWeight)\<rparr>,
          sampling_configs = \<lparr>sampling_cfg = 1.5, sampling_shift = 1, sampling_timesteps = 10\<rparr>\<rparr>"
  by (simp add: setup_extras_pre_def is_True_def Let_def)

lemma setup_extras_pre_class:
  "setup_extras_pre cf ri r0 l0 = Inr ex \<Longrightarrow>
   lw_class (loss_weight (gdf ex)) =
     (if adaptive_loss_weight cf = PyBool True then AdaptiveLossWeight else P2LossWeight)"
  by (auto simp: setup_extras_pre_def getitem_def is_True_def new_AdaptiveLossWeight_def
      new_P2LossWeight_def Let_def split: option.splits sum.splits if_splits)

lemma example_snapshot_keys:
  "map_of example_snapshot ''bucket_ranges'' = Some [-5, 0, 5]"
  "map_of example_snapshot ''bucket_losses'' = Some [1, 0.5, 0.25, 1]"
  by (simp_all add: example_snapshot_def)



text \<open>
  C10. The loss weight that setup\_extras\_pre builds is an AdaptiveLossWeight exactly when
  \<open>config.adaptive_loss_weight\<close> is the boolean True, and a P2LossWeight for every other
  value, a string included. In that case a snapshot in \<open>info.adaptive_loss\<close> is still
  written onto the P2LossWeight as \<open>bucket_ranges\<close> and \<open>bucket_losses\<close>.
\<close>

theorem setup_extras_pre_adaptive_iff_True:
  "(setup_extras_pre cf ri r0 l0 = Inr ex \<longrightarrow>
      (lw_class (loss_weight (gdf ex)) = AdaptiveLossWeight \<longleftrightarrow>
         adaptive_loss_weight cf = PyBool True) \<and>
      (lw_class (loss_weight (gdf ex)) = P2LossWeight \<longleftrightarrow>
         adaptive_loss_weight cf \<noteq> PyBool True)) \<and>
   (adaptive_loss_weight cf \<noteq> PyBool True \<and> adaptive_loss ri = Some d \<and>
    map_of d ''bucket_ranges'' = Some r \<and> map_of d ''bucket_losses'' = Some l \<longrightarrow>
      (\<exists>ex. setup_extras_pre cf ri r0 l0 = Inr ex \<and>
            lw_class (loss_weight (gdf ex)) = P2LossWeight \<and>
            bucket_ranges (loss_weight (gdf ex)) = Some r \<and>
            bucket_losses (loss_weight (gdf ex)) = Some l))"
  using setup_extras_pre_class [of cf ri r0 l0 ex]
  by (auto simp: setup_extras_pre_restored split: if_splits)

theorem setup_extras_pre_adaptive_iff_True_witness:
  "setup_extras_pre example_config
      \<lparr>total_steps = 0, adaptive_loss = None\<rparr> [-5, 0, 5] [1, 1, 1, 1]
     = Inr example_adaptive \<and>
   lw_class (loss_weight (gdf example_adaptive)) = AdaptiveLossWeight \<and>
   adaptive_loss_weight example_config = PyBool True \<and>
   adaptive_loss_weight (example_config\<lparr>adaptive_loss_weight := PyStr ''True''\<rparr>) \<noteq> PyBool True \<and>
   (\<exists>ex. setup_extras_pre (example_config\<lparr>adaptive_loss_weight := PyStr ''True''\<rparr>)
            \<lparr>total_steps = 1000, adaptive_loss = Some example_snapshot\<rparr> [-5, 0, 5] [1, 1, 1, 1]
          = Inr ex \<and>
        lw_class (loss_weight (gdf ex)) = P2LossWeight \<and>
        bucket_ranges (loss_weight (gdf ex)) = Some [-5, 0, 5] \<and>
        bucket_losses (loss_weight (gdf ex)) = Some [1, 0.5, 0.25, 1])"
proof -
  have t: "adaptive_loss_weight example_config = PyBool True"
    by (simp add: example_config_def)
  have fresh: "setup_extras_pre example_config
      \<lparr>total_steps = 0, adaptive_loss = None\<rparr> [-5, 0, 5] [1, 1, 1, 1] = Inr example_adaptive"
    by (simp add: setup_extras_pre_fresh t example_adaptive_def)
  show ?thesis
    using setup_extras_pre_adaptive_iff_True
        [of example_config "\<lparr>total_steps = 0, adaptive_loss = None\<rparr>"
            "[-5, 0, 5]" "[1, 1, 1, 1]" example_adaptive example_snapshot
            "[-5, 0, 5]" "[1, 0.5, 0.25, 1]"]
      setup_extras_pre_adaptive_iff_True
        [of "example_config\<lparr>adaptive_loss_weight := PyStr ''True''\<rparr>"
            "\<lparr>total_steps = 1000, adaptive_loss = Some example_snapshot\<rparr>"
            "[-5, 0, 5]" "[1, 1, 1, 1]" example_adaptive example_snapshot
            "[-5, 0, 5]" "[1, 0.5, 0.25, 1]"]
      fresh t example_snapshot_keys
    by simp
qed

subsection \<open>setup\_models\<close>

lemma setup_models_raises:
  "model_version cf \<noteq> ''3B'' \<Longrightarrow> model_version cf \<noteq> ''700M'' \<Longrightarrow>
   setup_models e cf = Inl (ValueError (''Unknown model version '' @ model_version cf))"
  by (simp add: setup_models_def Let_def)

lemma setup_models_returns:
  "model_version cf = ''3B'' \<or> model_version cf = ''700M'' \<Longrightarrow>
   \<exists>m. setup_models e cf = Inr m \<and>
       arch (generator m) = (if model_version cf = ''3B'' then StageB_3B else StageB_700M) \<and>
       generator_ema m =
         (if ema_start_iters cf \<noteq> None
          then Some (wrapped cf (eval_no_grad
                 (load_model e (load_state_dict (new_module (arch (generator m)))
                                                (weights (generator m)))
                    ''generator_ema'')))
          else None)"
  by (auto simp: setup_models_def Let_def wrapped_def FSDP_def load_model_def
      load_state_dict_def new_module_def eval_no_grad_def split: option.splits)





subsection \<open>ConfigDTO\<close>

lemma fill_fields_required:
  "fst (fill_fields fs kw) = [] \<Longrightarrow> (f, DTO_REQUIRED) \<in> set fs \<Longrightarrow> map_of kw f \<noteq> None"
  by (induction fs) (auto split: prod.splits option.splits field_default.splits)

lemma fill_fields_given:
  "(f, d) \<in> set fs \<Longrightarrow> map_of kw f = Some v \<Longrightarrow> map_of (snd (fill_fields fs kw)) f = Some v"
  by (induction fs) (auto split: prod.splits option.splits field_default.splits)

lemma fill_fields_default:
  "map_of fs f = Some (Default v) \<Longrightarrow> map_of kw f = None \<Longrightarrow>
   map_of (snd (fill_fields fs kw)) f = Some v"
  by (induction fs) (auto split: prod.splits option.splits field_default.splits if_splits)

lemma all_fields_own: "set ConfigDTO_fields \<subseteq> set (all_fields inh)"
  by (simp add: all_fields_def)

lemma all_fields_lookup:
  "f \<in> fst ` set ConfigDTO_fields \<Longrightarrow> map_of (all_fields inh) f = map_of ConfigDTO_fields f"
proof -
  assume f: "f \<in> fst ` set ConfigDTO_fields"
  have "map_of (filter (\<lambda>(f, d). f \<notin> set (map fst ConfigDTO_fields)) inh) f = None"
    using f by (force simp: map_of_eq_None_iff)
  moreover from f obtain d where "map_of ConfigDTO_fields f = Some d"
    by (meson domD domI map_of_eq_None_iff not_None_eq)
  ultimately show ?thesis
    by (simp add: all_fields_def map_add_def)
qed

lemma ConfigDTO_new_Inr:
  "ConfigDTO_new inh kw = Inr c \<Longrightarrow>
   fst (fill_fields (all_fields inh) kw) = [] \<and> c = snd (fill_fields (all_fields inh) kw)"
  by (auto simp: ConfigDTO_new_def dto_new_def Let_def split: prod.splits if_splits)

lemma example_kwargs_new:
  "ConfigDTO_new [] example_kwargs =
     Inr [(''lr'', PyFloat 0.0001), (''warmup_updates'', PyInt 1), (''shift'', PyInt 4),
          (''model_version'', PyStr ''3B''),
          (''clip_text_model_name'', PyStr ''laion/CLIP-ViT-bigG-14-laion2B-39B-b160k''),
          (''stage_a_checkpoint_path'', PyStr ''stage_a.pt''),
          (''effnet_checkpoint_path'', PyStr ''effnet.pt''),
          (''generator_checkpoint_path'', PyNone),
          (''adaptive_loss_weight'', PyBool True)]"
  by (simp add: ConfigDTO_new_def dto_new_def all_fields_def ConfigDTO_fields_def
      example_kwargs_def Let_def)

lemma example_kwargs_missing:
  "ConfigDTO_new [] (tl example_kwargs) = Inl (MissingFields [''lr''])"
  by (simp add: ConfigDTO_new_def dto_new_def all_fields_def ConfigDTO_fields_def
      example_kwargs_def Let_def)


text \<open>
  C8. If the construction of a ConfigDTO succeeds, then \<open>lr\<close>, \<open>warmup_updates\<close>,
  \<open>shift\<close>, \<open>model_version\<close>, \<open>stage_a_checkpoint_path\<close> and \<open>effnet_checkpoint_path\<close>
  were all given, and the instance holds the given values; \<open>clip_text_model_name\<close>,
  \<open>generator_checkpoint_path\<close> and \<open>adaptive_loss_weight\<close> hold the given value or else
  their default; and assigning to any field of the instance raises and changes nothing.
\<close>

theorem ConfigDTO_required_fields:
  assumes "ConfigDTO_new inh kw = Inr c"
  shows "(\<forall>f \<in> {''lr'', ''warmup_updates'', ''shift'', ''model_version'',
               ''stage_a_checkpoint_path'', ''effnet_checkpoint_path''}.
            \<exists>v. map_of kw f = Some v \<and> map_of c f = Some v) \<and>
         map_of c ''clip_text_model_name'' =
           Some (case map_of kw ''clip_text_model_name'' of
                   None \<Rightarrow> PyStr ''laion/CLIP-ViT-bigG-14-laion2B-39B-b160k'' | Some v \<Rightarrow> v) \<and>
         map_of c ''generator_checkpoint_path'' =
           Some (case map_of kw ''generator_checkpoint_path'' of None \<Rightarrow> PyNone | Some v \<Rightarrow> v) \<and>
         map_of c ''adaptive_loss_weight'' =
           Some (case map_of kw ''adaptive_loss_weight'' of None \<Rightarrow> PyNone | Some v \<Rightarrow> v) \<and>
         (\<forall>name v. dto_setattr c name v = (Inl (FrozenInstanceError name), c))"
proof -
  from ConfigDTO_new_Inr [OF assms]
  have nomiss: "fst (fill_fields (all_fields inh) kw) = []"
    and c: "c = snd (fill_fields (all_fields inh) kw)" by simp_all
  have req: "\<exists>v. map_of kw f = Some v \<and> map_of c f = Some v"
    if "(f, DTO_REQUIRED) \<in> set ConfigDTO_fields" for f
  proof -
    from that all_fields_own have mem: "(f, DTO_REQUIRED) \<in> set (all_fields inh)" by blast
    from fill_fields_required [OF nomiss mem] obtain v where v: "map_of kw f = Some v" by blast
    from fill_fields_given [OF mem v] c show ?thesis using v by simp
  qed
  have opt: "map_of c f = Some (case map_of kw f of None \<Rightarrow> v | Some u \<Rightarrow> u)"
    if "(f, Default v) \<in> set ConfigDTO_fields" "map_of ConfigDTO_fields f = Some (Default v)"
    for f v
  proof (cases "map_of kw f")
    case None
    have "f \<in> fst ` set ConfigDTO_fields" using that(1) by force
    then have "map_of (all_fields inh) f = Some (Default v)"
      using that(2) by (simp add: all_fields_lookup)
    from fill_fields_default [OF this None] c None show ?thesis by simp
  next
    case (Some u)
    from that(1) all_fields_own have "(f, Default v) \<in> set (all_fields inh)" by blast
    from fill_fields_given [OF this Some] c Some show ?thesis by simp
  qed
  show ?thesis
  proof (intro conjI ballI allI)
    fix f assume "f \<in> {''lr'', ''warmup_updates'', ''shift'', ''model_version'',
               ''stage_a_checkpoint_path'', ''effnet_checkpoint_path''}"
    then have "(f, DTO_REQUIRED) \<in> set ConfigDTO_fields"
      by (auto simp: ConfigDTO_fields_def)
    then show "\<exists>v. map_of kw f = Some v \<and> map_of c f = Some v" by (rule req)
  next
    show "map_of c ''clip_text_model_name'' =
           Some (case map_of kw ''clip_text_model_name'' of
                   None \<Rightarrow> PyStr ''laion/CLIP-ViT-bigG-14-laion2B-39B-b160k'' | Some v \<Rightarrow> v)"
      by (rule opt) (simp_all add: ConfigDTO_fields_def)
  next
    show "map_of c ''generator_checkpoint_path'' =
           Some (case map_of kw ''generator_checkpoint_path'' of None \<Rightarrow> PyNone | Some v \<Rightarrow> v)"
      by (rule opt) (simp_all add: ConfigDTO_fields_def)
  next
    show "map_of c ''adaptive_loss_weight'' =
           Some (case map_of kw ''adaptive_loss_weight'' of None \<Rightarrow> PyNone | Some v \<Rightarrow> v)"
      by (rule opt) (simp_all add: ConfigDTO_fields_def)
  next
    fix name v show "dto_setattr c name v = (Inl (FrozenInstanceError name), c)"
      by (simp add: dto_setattr_def)
  qed
qed

theorem ConfigDTO_required_fields_witness:
  "(\<exists>c. ConfigDTO_new [] example_kwargs = Inr c \<and>
        (\<forall>f \<in> {''lr'', ''warmup_updates'', ''shift'', ''model_version'',
               ''stage_a_checkpoint_path'', ''effnet_checkpoint_path''}.
            \<exists>v. map_of example_kwargs f = Some v \<and> map_of c f = Some v) \<and>
        map_of c ''clip_text_model_name'' =
          Some (PyStr ''laion/CLIP-ViT-bigG-14-laion2B-39B-b160k'') \<and>
        map_of c ''generator_checkpoint_path'' = Some PyNone \<and>
        map_of c ''adaptive_loss_weight'' = Some (PyBool True) \<and>
        dto_setattr c ''lr'' (PyFloat 1) = (Inl (FrozenInstanceError ''lr''), c)) \<and>
   ConfigDTO_new [] (tl example_kwargs) = Inl (MissingFields [''lr''])"
proof -
  have k: "map_of example_kwargs ''clip_text_model_name'' = None"
    "map_of example_kwargs ''generator_checkpoint_path'' = None"
    "map_of example_kwargs ''adaptive_loss_weight'' = Some (PyBool True)"
    by (simp_all add: example_kwargs_def)
  from ConfigDTO_required_fields [OF example_kwargs_new]
  show ?thesis
    unfolding k using example_kwargs_new example_kwargs_missing
    by (intro conjI exI) (assumption | simp)+
qed

end
